theory Spec2Isabelle
  imports Main
begin

section \<open>Access resolution: \<open>userHasScopes\<close> of \<open>permissions.ee/check-access.ts\<close>\<close>

subsection \<open>Data model\<close>

text \<open>
  A scope is an opaque capability name such as \<open>workflow:create\<close>. A project role
  assignment is one element of \<open>User.projectRoles\<close>, the object
  \<open>{ projectId, role }\<close>. The collection itself is nullable (the column is a nullable
  JSON column), so it is an optional list: \<open>None\<close> is \<open>null\<close>.
\<close>

type_synonym Scope = string

record ProjectRoleAssignment =
  pr_projectId :: string
  pr_role :: string

record User =
  user_id :: string
  user_role :: string
  projectRoles :: "ProjectRoleAssignment list option"

text \<open>
  The rows that the two sharing repositories return from \<open>findOneBy\<close>. The function
  reads only their \<open>projectId\<close>.
\<close>

record SharedWorkflow =
  sw_workflowId :: string
  sw_projectId :: string

record SharedCredentials =
  sc_credentialsId :: string
  sc_projectId :: string

text \<open>
  The fourth parameter of \<open>userHasScopes\<close>: an object with three optional string
  fields. \<open>None\<close> is an absent (\<open>undefined\<close>) field.
\<close>

record ResourceIds =
  credentialId :: "string option"
  workflowId :: "string option"
  projectId :: "string option"

text \<open>The \<open>mode\<close> option of \<open>hasGlobalScope\<close>.\<close>

datatype ScopeMode = oneOf | allOf

text \<open>
  The collaborators of the function live in other packages (\<open>@n8n/permissions\<close>,
  \<open>@n8n/db\<close>), so they are parameters of the model: the two pure permission
  functions and the two single-key reads. A read that finds no row returns \<open>None\<close>
  (\<open>null\<close>).
\<close>

record Collaborators =
  hasGlobalScope :: "User \<Rightarrow> Scope list \<Rightarrow> ScopeMode \<Rightarrow> bool"
  rolesWithScope :: "string \<Rightarrow> Scope list \<Rightarrow> string list"
  findSharedWorkflow :: "string \<Rightarrow> SharedWorkflow option"
  findSharedCredentials :: "string \<Rightarrow> SharedCredentials option"

text \<open>
  Every call the function makes to a repository or to the grant mapping is recorded, in
  order, so that statements about which lookups are performed can be made.
\<close>

datatype Call =
    FindSharedWorkflow string
  | FindSharedCredentials string
  | RolesWithScope string "Scope list"

datatype error = UnexpectedError

subsection \<open>The function\<close>

text \<open>
  The source tests identifiers by truthiness (\<open>!currentProjectId\<close>, \<open>workflowId\<close>,
  \<open>projectId || workflowId || credentialId\<close>): an optional string is truthy when it is
  present and not the empty string.
\<close>

fun truthy :: "string option \<Rightarrow> bool" where
  "truthy None = False"
| "truthy (Some s) = (s \<noteq> [])"

text \<open>
  Lines 35 to 40: when no project is known yet and a workflow id is given, the workflow's
  sharing row is read; a row that is found sets the current project.
\<close>

fun fromWorkflow ::
  "Collaborators \<Rightarrow> string option \<Rightarrow> string option \<Rightarrow> string option \<times> Call list" where
  "fromWorkflow env currentProjectId None = (currentProjectId, [])"
| "fromWorkflow env currentProjectId (Some w) =
     (if \<not> truthy currentProjectId \<and> truthy (Some w) then
        (case findSharedWorkflow env w of
           Some sharedWorkflow \<Rightarrow> (Some (sw_projectId sharedWorkflow), [FindSharedWorkflow w])
         | None \<Rightarrow> (currentProjectId, [FindSharedWorkflow w]))
      else (currentProjectId, []))"

text \<open>Lines 42 to 47: the same for the credential id.\<close>

fun fromCredential ::
  "Collaborators \<Rightarrow> string option \<Rightarrow> string option \<Rightarrow> string option \<times> Call list" where
  "fromCredential env currentProjectId None = (currentProjectId, [])"
| "fromCredential env currentProjectId (Some c) =
     (if \<not> truthy currentProjectId \<and> truthy (Some c) then
        (case findSharedCredentials env c of
           Some sharedCredential \<Rightarrow> (Some (sc_projectId sharedCredential), [FindSharedCredentials c])
         | None \<Rightarrow> (currentProjectId, [FindSharedCredentials c]))
      else (currentProjectId, []))"

text \<open>
  Lines 49 to 62: with a truthy current project, the first entry of the user's list for
  that project is taken (\<open>Array.prototype.find\<close>), and only then the grant mapping is
  asked, for kind \<open>project\<close>, and the entry's role is looked for in its answer.
\<close>

fun roleGrants ::
  "Collaborators \<Rightarrow> ProjectRoleAssignment list \<Rightarrow> Scope list \<Rightarrow> string option
     \<Rightarrow> bool \<times> Call list" where
  "roleGrants env prs scopes None = (False, [])"
| "roleGrants env prs scopes (Some p) =
     (if truthy (Some p) then
        (case find (\<lambda>pr. pr_projectId pr = p) prs of
           None \<Rightarrow> (False, [])
         | Some userRoleInProject \<Rightarrow>
             (pr_role userRoleInProject \<in> set (rolesWithScope env ''project'' scopes),
              [RolesWithScope ''project'' scopes]))
      else (False, []))"

text \<open>
  Lines 32 to 63: the block guarded by \<open>user.projectRoles && user.projectRoles.length > 0\<close>.
  Its value says whether the block returned \<open>true\<close>.
\<close>

definition viaProjectRoles ::
  "Collaborators \<Rightarrow> User \<Rightarrow> Scope list \<Rightarrow> ResourceIds \<Rightarrow> bool \<times> Call list" where
  "viaProjectRoles env user scopes ids =
     (case projectRoles user of
        None \<Rightarrow> (False, [])
      | Some prs \<Rightarrow>
          if 0 < length prs then
            (let (cur1, calls1) = fromWorkflow env (projectId ids) (workflowId ids);
                 (cur2, calls2) = fromCredential env cur1 (credentialId ids);
                 (granted, calls3) = roleGrants env prs scopes cur2
             in (granted, calls1 @ calls2 @ calls3))
          else (False, []))"

text \<open>
  The whole function. The result is the returned boolean, or the thrown
  \<open>UnexpectedError\<close>, together with the calls made.
\<close>

definition userHasScopes ::
  "Collaborators \<Rightarrow> User \<Rightarrow> Scope list \<Rightarrow> bool \<Rightarrow> ResourceIds
     \<Rightarrow> (error + bool) \<times> Call list" where
  "userHasScopes env user scopes globalOnly ids =
     (if hasGlobalScope env user scopes allOf then (Inr True, [])
      else if globalOnly then (Inr False, [])
      else
        (let (granted, calls) = viaProjectRoles env user scopes ids
         in if granted then (Inr True, calls)
            else if truthy (projectId ids) \<or> truthy (workflowId ids) \<or> truthy (credentialId ids)
              then (Inr False, calls)
            else (Inl UnexpectedError, calls)))"

subsection \<open>Fixtures\<close>

text \<open>
  The identifiers, users and collaborators that the tests of \<open>userHasScopes\<close> use, and
  a few more in their style.
\<close>

definition viewer :: User where
  "viewer = \<lparr>user_id = ''user-id-1'', user_role = ''global:viewer'', projectRoles = Some []\<rparr>"

definition adminOfP1 :: User where
  "adminOfP1 = viewer\<lparr>projectRoles :=
     Some [\<lparr>pr_projectId = ''project-id-1'', pr_role = ''project:admin''\<rparr>]\<rparr>"

definition noGlobal :: "User \<Rightarrow> Scope list \<Rightarrow> ScopeMode \<Rightarrow> bool" where
  "noGlobal u s m = False"

definition allGlobal :: "User \<Rightarrow> Scope list \<Rightarrow> ScopeMode \<Rightarrow> bool" where
  "allGlobal u s m = True"

definition adminOnly :: "string \<Rightarrow> Scope list \<Rightarrow> string list" where
  "adminOnly kind scopes = (if kind = ''project'' then [''project:admin''] else [])"

definition workflowRows :: "string \<Rightarrow> SharedWorkflow option" where
  "workflowRows w =
     (if w = ''workflow-id-1''
      then Some \<lparr>sw_workflowId = ''workflow-id-1'', sw_projectId = ''project-id-1''\<rparr>
      else None)"

definition credentialRows :: "string \<Rightarrow> SharedCredentials option" where
  "credentialRows c =
     (if c = ''credential-id-1''
      then Some \<lparr>sc_credentialsId = ''credential-id-1'', sc_projectId = ''project-id-1''\<rparr>
      else None)"

definition testEnv :: Collaborators where
  "testEnv = \<lparr>hasGlobalScope = noGlobal, rolesWithScope = adminOnly,
     findSharedWorkflow = workflowRows, findSharedCredentials = credentialRows\<rparr>"

definition noIds :: ResourceIds where
  "noIds = \<lparr>credentialId = None, workflowId = None, projectId = None\<rparr>"

definition nullRoles :: User where
  "nullRoles = viewer\<lparr>projectRoles := None\<rparr>"

definition rolesInTwoProjects :: "ProjectRoleAssignment list" where
  "rolesInTwoProjects =
     [\<lparr>pr_projectId = ''project-id-1'', pr_role = ''project:admin''\<rparr>,
      \<lparr>pr_projectId = ''project-id-3'', pr_role = ''project:viewer''\<rparr>]"

definition memberOfTwo :: User where
  "memberOfTwo = viewer\<lparr>projectRoles := Some rolesInTwoProjects\<rparr>"

definition adminAnyKind :: "string \<Rightarrow> Scope list \<Rightarrow> string list" where
  "adminAnyKind kind scopes = [''project:admin'']"

definition noCredentialRows :: "string \<Rightarrow> SharedCredentials option" where
  "noCredentialRows c = None"

definition onlyProject :: "string \<Rightarrow> ResourceIds" where
  "onlyProject p = noIds\<lparr>projectId := Some p\<rparr>"

definition onlyWorkflow :: "string \<Rightarrow> ResourceIds" where
  "onlyWorkflow w = noIds\<lparr>workflowId := Some w\<rparr>"

definition onlyCredential :: "string \<Rightarrow> ResourceIds" where
  "onlyCredential c = noIds\<lparr>credentialId := Some c\<rparr>"

definition projectAndWorkflow :: ResourceIds where
  "projectAndWorkflow = \<lparr>credentialId = None, workflowId = Some ''workflow-id-1'',
     projectId = Some ''project-id-2''\<rparr>"

lemmas fixture_defs =
  viewer_def adminOfP1_def noGlobal_def allGlobal_def adminOnly_def workflowRows_def
  credentialRows_def testEnv_def

lemmas ids_defs = noIds_def onlyProject_def onlyWorkflow_def onlyCredential_def

section \<open>The steps of the resolution\<close>

text \<open>
  A step that already has a project, or that has no identifier of its own, changes nothing
  and reads nothing.
\<close>

lemma fromWorkflow_known: "truthy cur \<Longrightarrow> fromWorkflow env cur wid = (cur, [])"
  by (cases wid) simp_all

lemma fromWorkflow_absent: "\<not> truthy wid \<Longrightarrow> fromWorkflow env cur wid = (cur, [])"
  by (cases wid) simp_all

lemma fromCredential_known: "truthy cur \<Longrightarrow> fromCredential env cur cid = (cur, [])"
  by (cases cid) simp_all

lemma fromCredential_absent: "\<not> truthy cid \<Longrightarrow> fromCredential env cur cid = (cur, [])"
  by (cases cid) simp_all

lemma roleGrants_unknown: "\<not> truthy cur \<Longrightarrow> roleGrants env prs scopes cur = (False, [])"
  by (cases cur) simp_all

lemma viaProjectRoles_no_roles:
  "projectRoles user = None \<or> projectRoles user = Some [] \<Longrightarrow>
     viaProjectRoles env user scopes ids = (False, [])"
  by (auto simp: viaProjectRoles_def)

lemma viaProjectRoles_no_ids:
  "\<not> truthy (projectId ids) \<Longrightarrow> \<not> truthy (workflowId ids) \<Longrightarrow>
     \<not> truthy (credentialId ids) \<Longrightarrow> viaProjectRoles env user scopes ids = (False, [])"
  by (simp add: viaProjectRoles_def fromWorkflow_absent fromCredential_absent roleGrants_unknown
      split: option.splits)

lemma viaProjectRoles_explicit:
  "projectRoles user = Some prs \<Longrightarrow> prs \<noteq> [] \<Longrightarrow> truthy (projectId ids) \<Longrightarrow>
     viaProjectRoles env user scopes ids = roleGrants env prs scopes (projectId ids)"
  by (simp add: viaProjectRoles_def fromWorkflow_known fromCredential_known)

text \<open>
  With no explicit project and a workflow id, the block reads the workflow's row first and
  goes on from the row's project, or from no project when there is no row.
\<close>

lemma viaProjectRoles_workflow:
  assumes "projectRoles user = Some prs" and "prs \<noteq> []" and "\<not> truthy (projectId ids)"
    and "workflowId ids = Some w" and "w \<noteq> []"
  shows "viaProjectRoles env user scopes ids =
     (case findSharedWorkflow env w of
        Some sw \<Rightarrow>
          (let (cur2, calls2) = fromCredential env (Some (sw_projectId sw)) (credentialId ids);
               (granted, calls3) = roleGrants env prs scopes cur2
           in (granted, FindSharedWorkflow w # calls2 @ calls3))
      | None \<Rightarrow>
          (let (cur2, calls2) = fromCredential env (projectId ids) (credentialId ids);
               (granted, calls3) = roleGrants env prs scopes cur2
           in (granted, FindSharedWorkflow w # calls2 @ calls3)))"
  using assms by (simp add: viaProjectRoles_def split: option.splits prod.splits)

text \<open>
  When the workflow step has found no project, a credential id makes the block read the
  credential's row.
\<close>

lemma viaProjectRoles_credential:
  assumes "projectRoles user = Some prs" and "prs \<noteq> []" and "\<not> truthy (projectId ids)"
    and "\<not> truthy (workflowId ids) \<or> (\<exists>w. workflowId ids = Some w \<and> findSharedWorkflow env w = None)"
    and "credentialId ids = Some c" and "c \<noteq> []"
  shows "\<exists>calls1. viaProjectRoles env user scopes ids =
     (case findSharedCredentials env c of
        Some sc \<Rightarrow>
          (let (granted, calls3) = roleGrants env prs scopes (Some (sc_projectId sc))
           in (granted, calls1 @ FindSharedCredentials c # calls3))
      | None \<Rightarrow> (False, calls1 @ [FindSharedCredentials c]))"
proof (cases "truthy (workflowId ids)")
  case False
  with assms(1-3,5,6) show ?thesis
    by (simp add: viaProjectRoles_def fromWorkflow_absent roleGrants_unknown
        split: option.splits prod.splits)
next
  case True
  with assms(4) obtain w where w: "workflowId ids = Some w" "findSharedWorkflow env w = None"
    by blast
  with True have "w \<noteq> []" by simp
  with assms(1-3,5,6) w show ?thesis
    by (simp add: viaProjectRoles_def roleGrants_unknown split: option.splits prod.splits)
qed

text \<open>
  An identifier that is the empty string is handled as an absent one: it starts no lookup
  and no role evaluation, and it does not count at line 112.
\<close>

lemma empty_identifier_is_absent:
  "userHasScopes testEnv adminOfP1 [''project:read''] False (onlyProject [])
     = userHasScopes testEnv adminOfP1 [''project:read''] False noIds"
  "fst (userHasScopes testEnv adminOfP1 [''project:read''] False (onlyProject []))
     = Inl UnexpectedError"
  by (simp_all add: fixture_defs ids_defs userHasScopes_def viaProjectRoles_def)

section \<open>The global check\<close>

text \<open>
  C2. When the user's global role grants all required scopes (\<open>hasGlobalScope\<close> with
  mode \<open>allOf\<close> is true), \<open>userHasScopes\<close> returns \<open>true\<close> whatever the resource
  identifiers and \<open>globalOnly\<close> are, and makes no lookup at all.
\<close>

theorem global_grant_returns_true:
  "hasGlobalScope env user scopes allOf \<Longrightarrow>
     userHasScopes env user scopes globalOnly ids = (Inr True, [])"
  by (simp add: userHasScopes_def)

theorem global_grant_returns_true_witness:
  "hasGlobalScope (testEnv\<lparr>hasGlobalScope := allGlobal\<rparr>) viewer [''project:read''] allOf \<and>
   userHasScopes (testEnv\<lparr>hasGlobalScope := allGlobal\<rparr>) viewer [''project:read''] False
     (onlyProject ''project-id-1'') = (Inr True, [])"
proof -
  have g: "hasGlobalScope (testEnv\<lparr>hasGlobalScope := allGlobal\<rparr>) viewer [''project:read''] allOf"
    by (simp add: allGlobal_def)
  from g global_grant_returns_true [OF g] show ?thesis by simp
qed

text \<open>
  C3. When the global check fails and \<open>globalOnly\<close> is set, \<open>userHasScopes\<close> returns
  \<open>false\<close> and performs no workflow-sharing or credential-sharing read (the list of
  calls is empty), whatever identifiers were given.
\<close>

theorem global_only_denies_without_lookup:
  "\<not> hasGlobalScope env user scopes allOf \<Longrightarrow> globalOnly \<Longrightarrow>
     userHasScopes env user scopes globalOnly ids = (Inr False, [])"
  by (simp add: userHasScopes_def)

theorem global_only_denies_without_lookup_witness:
  "\<not> hasGlobalScope testEnv adminOfP1 [''workflow:create''] allOf \<and>
   userHasScopes testEnv adminOfP1 [''workflow:create''] True
     (onlyWorkflow ''workflow-id-1'') = (Inr False, [])"
proof -
  have g: "\<not> hasGlobalScope testEnv adminOfP1 [''workflow:create''] allOf"
    by (simp add: testEnv_def noGlobal_def)
  from g global_only_denies_without_lookup [OF g, of True] show ?thesis by simp
qed

section \<open>Denial and the error\<close>

text \<open>
  C1. An identifier counts as supplied when it passes the test the source applies to it:
  it is present and not the empty string. \<open>userHasScopes\<close> throws the
  \<open>UnexpectedError\<close> if and only if the global check fails, \<open>globalOnly\<close> is false and
  none of \<open>projectId\<close>, \<open>workflowId\<close>, \<open>credentialId\<close> is supplied. Whenever at
  least one of them is supplied and the outcome is not \<open>true\<close>, the outcome is the
  boolean \<open>false\<close>, not the error.
\<close>

theorem error_iff_no_identifier:
  "(fst (userHasScopes env user scopes globalOnly ids) = Inl UnexpectedError \<longleftrightarrow>
      \<not> hasGlobalScope env user scopes allOf \<and> \<not> globalOnly \<and>
      \<not> truthy (projectId ids) \<and> \<not> truthy (workflowId ids) \<and> \<not> truthy (credentialId ids))
   \<and> (truthy (projectId ids) \<or> truthy (workflowId ids) \<or> truthy (credentialId ids) \<longrightarrow>
        fst (userHasScopes env user scopes globalOnly ids) \<noteq> Inr True \<longrightarrow>
        fst (userHasScopes env user scopes globalOnly ids) = Inr False)"
proof -
  obtain granted calls where v: "viaProjectRoles env user scopes ids = (granted, calls)"
    by (cases "viaProjectRoles env user scopes ids")
  have none: "\<not> granted"
    if "\<not> truthy (projectId ids)" "\<not> truthy (workflowId ids)" "\<not> truthy (credentialId ids)"
    using viaProjectRoles_no_ids [OF that, of env user scopes] v by simp
  show ?thesis
    using none by (auto simp: userHasScopes_def v)
qed

theorem error_iff_no_identifier_witness:
  "fst (userHasScopes testEnv viewer [''project:read''] False noIds) = Inl UnexpectedError \<and>
   truthy (projectId (onlyProject ''project-id-2'')) \<and>
   fst (userHasScopes testEnv adminOfP1 [''project:read''] False (onlyProject ''project-id-2''))
     \<noteq> Inr True \<and>
   fst (userHasScopes testEnv adminOfP1 [''project:read''] False (onlyProject ''project-id-2''))
     = Inr False"
proof -
  have none: "\<not> hasGlobalScope testEnv viewer [''project:read''] allOf \<and> \<not> False \<and>
      \<not> truthy (projectId noIds) \<and> \<not> truthy (workflowId noIds) \<and> \<not> truthy (credentialId noIds)"
    by (simp add: fixture_defs ids_defs)
  have given: "truthy (projectId (onlyProject ''project-id-2''))
      \<or> truthy (workflowId (onlyProject ''project-id-2''))
      \<or> truthy (credentialId (onlyProject ''project-id-2''))"
    by (simp add: ids_defs)
  have ungranted:
    "fst (userHasScopes testEnv adminOfP1 [''project:read''] False (onlyProject ''project-id-2''))
       \<noteq> Inr True"
    by (simp add: fixture_defs ids_defs userHasScopes_def viaProjectRoles_def)
  note at_none = error_iff_no_identifier [of testEnv viewer "[''project:read'']" False noIds]
  note at_other = error_iff_no_identifier
    [of testEnv adminOfP1 "[''project:read'']" False "onlyProject ''project-id-2''"]
  from at_none none have "fst (userHasScopes testEnv viewer [''project:read''] False noIds)
      = Inl UnexpectedError"
    by blast
  moreover from at_other given ungranted
  have "fst (userHasScopes testEnv adminOfP1 [''project:read''] False (onlyProject ''project-id-2''))
      = Inr False"
    by blast
  moreover have "truthy (projectId (onlyProject ''project-id-2''))"
    by (simp add: ids_defs)
  ultimately show ?thesis using ungranted by blast
qed

section \<open>A user without project roles\<close>

text \<open>
  C7. With the global check failed, \<open>globalOnly\<close> false and at least one identifier
  supplied, a user whose project-role collection is \<open>null\<close> or empty gets \<open>false\<close>:
  the two cases give the same answer, and neither throws.
\<close>

theorem no_project_roles_denies:
  assumes "\<not> hasGlobalScope env user scopes allOf" and "\<not> globalOnly"
    and "truthy (projectId ids) \<or> truthy (workflowId ids) \<or> truthy (credentialId ids)"
    and "projectRoles user = None \<or> projectRoles user = Some []"
  shows "fst (userHasScopes env user scopes globalOnly ids) = Inr False"
  using assms(1-3) by (auto simp: userHasScopes_def viaProjectRoles_no_roles [OF assms(4)])

theorem no_project_roles_denies_witness:
  "projectRoles nullRoles = None \<and> projectRoles viewer = Some [] \<and>
   fst (userHasScopes testEnv nullRoles [''project:read''] False (onlyProject ''project-id-1''))
     = Inr False \<and>
   fst (userHasScopes testEnv viewer [''project:read''] False (onlyProject ''project-id-1''))
     = Inr False"
proof -
  have g: "\<not> hasGlobalScope testEnv u [''project:read''] allOf" for u
    by (simp add: testEnv_def noGlobal_def)
  have n: "\<not> False" by simp
  have i: "truthy (projectId (onlyProject ''project-id-1''))
      \<or> truthy (workflowId (onlyProject ''project-id-1''))
      \<or> truthy (credentialId (onlyProject ''project-id-1''))"
    by (simp add: ids_defs)
  have r0: "projectRoles nullRoles = None" by (simp add: nullRoles_def)
  have r1: "projectRoles viewer = Some []" by (simp add: viewer_def)
  from r0 have r0': "projectRoles nullRoles = None \<or> projectRoles nullRoles = Some []" by simp
  from r1 have r1': "projectRoles viewer = None \<or> projectRoles viewer = Some []" by simp
  from no_project_roles_denies [OF g n i r0'] no_project_roles_denies [OF g n i r1'] r0 r1
  show ?thesis by blast
qed

text \<open>
  C9. A user whose project-role collection is \<open>null\<close> or empty causes no external call
  at all: even with a \<open>workflowId\<close> or a \<open>credentialId\<close>, neither sharing repository
  is read, since the whole resolution block is skipped.
\<close>

theorem no_project_roles_no_lookup:
  assumes "projectRoles user = None \<or> projectRoles user = Some []"
  shows "snd (userHasScopes env user scopes globalOnly ids) = []"
  by (simp add: userHasScopes_def viaProjectRoles_no_roles [OF assms])

theorem no_project_roles_no_lookup_witness:
  "projectRoles viewer = Some [] \<and>
   snd (userHasScopes testEnv viewer [''workflow:create''] False (onlyWorkflow ''workflow-id-1''))
     = [] \<and>
   projectRoles nullRoles = None \<and>
   snd (userHasScopes testEnv nullRoles [''credential:delete''] False
     (onlyCredential ''credential-id-1'')) = []"
proof -
  have r0: "projectRoles nullRoles = None" by (simp add: nullRoles_def)
  have r1: "projectRoles viewer = Some []" by (simp add: viewer_def)
  from r0 have r0': "projectRoles nullRoles = None \<or> projectRoles nullRoles = Some []" by simp
  from r1 have r1': "projectRoles viewer = None \<or> projectRoles viewer = Some []" by simp
  from no_project_roles_no_lookup [OF r0'] no_project_roles_no_lookup [OF r1'] r0 r1
  show ?thesis by blast
qed

section \<open>The role held in the project\<close>

text \<open>
  A user holds at most one role per project: the list has at most one entry for each
  project id. In such a list the entry that \<open>find\<close> returns for a project is the entry
  the list holds for it.
\<close>

lemma find_entry_of_project:
  "distinct (map pr_projectId prs) \<Longrightarrow> e \<in> set prs \<Longrightarrow>
     find (\<lambda>pr. pr_projectId pr = pr_projectId e) prs = Some e"
proof (induction prs)
  case Nil
  then show ?case by simp
next
  case (Cons x xs)
  show ?case
  proof (cases "pr_projectId x = pr_projectId e")
    case True
    with Cons.prems have "x = e" by (auto simp: image_iff)
    then show ?thesis by simp
  next
    case False
    with Cons show ?thesis by auto
  qed
qed

text \<open>
  C4. Let the global check fail, \<open>globalOnly\<close> be false and the caller supply an explicit
  \<open>projectId = P\<close>, for a user with at most one role per project. When the user's list
  contains the entry \<open>{projectId: P, role: R}\<close>, the function returns \<open>true\<close> if and
  only if \<open>R\<close> is among \<open>rolesWithScope('project', scopes)\<close>. When the user holds no
  entry for \<open>P\<close>, it returns \<open>false\<close>.
\<close>

theorem explicit_project_entry_decides:
  assumes "\<not> hasGlobalScope env user scopes allOf" and "\<not> globalOnly"
    and "projectRoles user = Some prs" and "distinct (map pr_projectId prs)"
    and "projectId ids = Some P" and "P \<noteq> []"
  shows "(\<lparr>pr_projectId = P, pr_role = R\<rparr> \<in> set prs \<longrightarrow>
            fst (userHasScopes env user scopes globalOnly ids)
              = Inr (R \<in> set (rolesWithScope env ''project'' scopes)))
       \<and> ((\<forall>pr\<in>set prs. pr_projectId pr \<noteq> P) \<longrightarrow>
            fst (userHasScopes env user scopes globalOnly ids) = Inr False)"
proof (cases "prs = []")
  case True
  with assms show ?thesis
    by (simp add: userHasScopes_def viaProjectRoles_no_roles)
next
  case False
  have t: "truthy (projectId ids)" using assms(5,6) by simp
  have v: "viaProjectRoles env user scopes ids = roleGrants env prs scopes (Some P)"
    using viaProjectRoles_explicit [OF assms(3) False t] assms(5) by simp
  have held: "find (\<lambda>pr. pr_projectId pr = P) prs = Some \<lparr>pr_projectId = P, pr_role = R\<rparr>"
    if "\<lparr>pr_projectId = P, pr_role = R\<rparr> \<in> set prs"
    using find_entry_of_project [OF assms(4) that] by simp
  have absent: "find (\<lambda>pr. pr_projectId pr = P) prs = None"
    if "\<forall>pr\<in>set prs. pr_projectId pr \<noteq> P"
    using that by (simp add: find_None_iff)
  show ?thesis
    using assms(1,2,6) t held absent by (auto simp: userHasScopes_def v)
qed

theorem explicit_project_entry_decides_witness:
  "distinct (map pr_projectId rolesInTwoProjects) \<and>
   \<lparr>pr_projectId = ''project-id-1'', pr_role = ''project:admin''\<rparr> \<in> set rolesInTwoProjects \<and>
   fst (userHasScopes testEnv memberOfTwo [''project:read''] False (onlyProject ''project-id-1''))
     = Inr True \<and>
   \<lparr>pr_projectId = ''project-id-3'', pr_role = ''project:viewer''\<rparr> \<in> set rolesInTwoProjects \<and>
   fst (userHasScopes testEnv memberOfTwo [''project:read''] False (onlyProject ''project-id-3''))
     = Inr False \<and>
   fst (userHasScopes testEnv memberOfTwo [''project:read''] False (onlyProject ''project-id-2''))
     = Inr False"
proof -
  have g: "\<not> hasGlobalScope testEnv memberOfTwo [''project:read''] allOf"
    by (simp add: testEnv_def noGlobal_def)
  have n: "\<not> False" by simp
  have r: "projectRoles memberOfTwo = Some rolesInTwoProjects"
    by (simp add: memberOfTwo_def)
  have d: "distinct (map pr_projectId rolesInTwoProjects)"
    by (simp add: rolesInTwoProjects_def)
  have p: "projectId (onlyProject q) = Some q" for q
    by (simp add: ids_defs)
  have ne1: "''project-id-1'' \<noteq> []" and ne2: "''project-id-2'' \<noteq> []"
    and ne3: "''project-id-3'' \<noteq> []"
    by simp_all
  have admin: "\<lparr>pr_projectId = ''project-id-1'', pr_role = ''project:admin''\<rparr>
      \<in> set rolesInTwoProjects"
    and viewer: "\<lparr>pr_projectId = ''project-id-3'', pr_role = ''project:viewer''\<rparr>
      \<in> set rolesInTwoProjects"
    and other: "\<forall>pr\<in>set rolesInTwoProjects. pr_projectId pr \<noteq> ''project-id-2''"
    by (simp_all add: rolesInTwoProjects_def)
  have granting: "''project:admin'' \<in> set (rolesWithScope testEnv ''project'' [''project:read''])"
    and not_granting:
      "''project:viewer'' \<notin> set (rolesWithScope testEnv ''project'' [''project:read''])"
    by (simp_all add: testEnv_def adminOnly_def)
  from explicit_project_entry_decides [OF g n r d p ne1, of "''project:admin''"] admin granting
  have a: "fst (userHasScopes testEnv memberOfTwo [''project:read''] False
      (onlyProject ''project-id-1'')) = Inr True"
    by simp
  from explicit_project_entry_decides [OF g n r d p ne3, of "''project:viewer''"] viewer not_granting
  have b: "fst (userHasScopes testEnv memberOfTwo [''project:read''] False
      (onlyProject ''project-id-3'')) = Inr False"
    by simp
  from explicit_project_entry_decides [OF g n r d p ne2, of "''project:viewer''"] other
  have c: "fst (userHasScopes testEnv memberOfTwo [''project:read''] False
      (onlyProject ''project-id-2'')) = Inr False"
    by blast
  from d admin a viewer b c show ?thesis by blast
qed

section \<open>A project found through a workflow or a credential\<close>

text \<open>
  C5. Let the global check fail, \<open>globalOnly\<close> be false, the user's project-role list be
  non-empty and no explicit \<open>projectId\<close> be supplied.

  With a \<open>workflowId\<close> supplied, the workflow-sharing row is read by that id. If a row is
  found, the role evaluation runs against the row's project (project ids are non-empty):
  the answer is \<open>true\<close> exactly when the user's entry for that project has a role among
  \<open>rolesWithScope('project', scopes)\<close>. If no row is found and the \<open>credentialId\<close> is
  absent or has no row either, the answer is \<open>false\<close>, not an error.

  With a \<open>credentialId\<close> supplied, and the workflow step having found no project (no
  \<open>workflowId\<close>, or no row for it), the credential-sharing row is read by that id, with
  the same two outcomes.
\<close>

theorem derived_project_decides:
  assumes "\<not> hasGlobalScope env user scopes allOf" and "\<not> globalOnly"
    and "projectRoles user = Some prs" and "prs \<noteq> []" and "\<not> truthy (projectId ids)"
  shows
    "(workflowId ids = Some w \<and> w \<noteq> [] \<longrightarrow>
        FindSharedWorkflow w \<in> set (snd (userHasScopes env user scopes globalOnly ids)) \<and>
        (\<forall>sw. findSharedWorkflow env w = Some sw \<and> sw_projectId sw \<noteq> [] \<longrightarrow>
           fst (userHasScopes env user scopes globalOnly ids) =
             Inr (case find (\<lambda>pr. pr_projectId pr = sw_projectId sw) prs of
                    None \<Rightarrow> False
                  | Some pr \<Rightarrow> pr_role pr \<in> set (rolesWithScope env ''project'' scopes))) \<and>
        (findSharedWorkflow env w = None \<and>
           (\<not> truthy (credentialId ids) \<or>
            (\<exists>c. credentialId ids = Some c \<and> findSharedCredentials env c = None)) \<longrightarrow>
           fst (userHasScopes env user scopes globalOnly ids) = Inr False))
   \<and> (credentialId ids = Some c \<and> c \<noteq> [] \<and>
        (\<not> truthy (workflowId ids) \<or>
         (\<exists>w. workflowId ids = Some w \<and> findSharedWorkflow env w = None)) \<longrightarrow>
        FindSharedCredentials c \<in> set (snd (userHasScopes env user scopes globalOnly ids)) \<and>
        (\<forall>sc. findSharedCredentials env c = Some sc \<and> sc_projectId sc \<noteq> [] \<longrightarrow>
           fst (userHasScopes env user scopes globalOnly ids) =
             Inr (case find (\<lambda>pr. pr_projectId pr = sc_projectId sc) prs of
                    None \<Rightarrow> False
                  | Some pr \<Rightarrow> pr_role pr \<in> set (rolesWithScope env ''project'' scopes))) \<and>
        (findSharedCredentials env c = None \<longrightarrow>
           fst (userHasScopes env user scopes globalOnly ids) = Inr False))"
  (is "?W \<and> ?C")
proof
  show ?W
  proof (intro impI, elim conjE)
    assume w: "workflowId ids = Some w" "w \<noteq> []"
    note v = viaProjectRoles_workflow [OF assms(3-5) w, of env scopes]
    have t: "truthy (workflowId ids)" using w by simp
    have looked: "FindSharedWorkflow w \<in> set (snd (userHasScopes env user scopes globalOnly ids))"
      using assms(1,2) t
      by (auto simp: userHasScopes_def v split: option.splits prod.splits)
    have found: "fst (userHasScopes env user scopes globalOnly ids) =
             Inr (case find (\<lambda>pr. pr_projectId pr = sw_projectId sw) prs of
                    None \<Rightarrow> False
                  | Some pr \<Rightarrow> pr_role pr \<in> set (rolesWithScope env ''project'' scopes))"
      if "findSharedWorkflow env w = Some sw" "sw_projectId sw \<noteq> []" for sw
      using assms(1,2) t that
      by (simp add: userHasScopes_def v fromCredential_known split: option.splits)
    have missing: "fst (userHasScopes env user scopes globalOnly ids) = Inr False"
      if "findSharedWorkflow env w = None"
        "\<not> truthy (credentialId ids) \<or>
            (\<exists>c. credentialId ids = Some c \<and> findSharedCredentials env c = None)"
      using assms(1,2,5) t that
      by (cases "credentialId ids")
         (auto simp: userHasScopes_def v roleGrants_unknown split: option.splits)
    from looked found missing show
      "FindSharedWorkflow w \<in> set (snd (userHasScopes env user scopes globalOnly ids)) \<and>
        (\<forall>sw. findSharedWorkflow env w = Some sw \<and> sw_projectId sw \<noteq> [] \<longrightarrow>
           fst (userHasScopes env user scopes globalOnly ids) =
             Inr (case find (\<lambda>pr. pr_projectId pr = sw_projectId sw) prs of
                    None \<Rightarrow> False
                  | Some pr \<Rightarrow> pr_role pr \<in> set (rolesWithScope env ''project'' scopes))) \<and>
        (findSharedWorkflow env w = None \<and>
           (\<not> truthy (credentialId ids) \<or>
            (\<exists>c. credentialId ids = Some c \<and> findSharedCredentials env c = None)) \<longrightarrow>
           fst (userHasScopes env user scopes globalOnly ids) = Inr False)"
      by blast
  qed
next
  show ?C
  proof (intro impI, elim conjE)
    assume c: "credentialId ids = Some c" "c \<noteq> []"
      and nw: "\<not> truthy (workflowId ids) \<or>
         (\<exists>w. workflowId ids = Some w \<and> findSharedWorkflow env w = None)"
    from viaProjectRoles_credential [OF assms(3-5) nw c, of scopes]
    obtain calls1 where v: "viaProjectRoles env user scopes ids =
     (case findSharedCredentials env c of
        Some sc \<Rightarrow>
          (let (granted, calls3) = roleGrants env prs scopes (Some (sc_projectId sc))
           in (granted, calls1 @ FindSharedCredentials c # calls3))
      | None \<Rightarrow> (False, calls1 @ [FindSharedCredentials c]))"
      by blast
    have t: "truthy (credentialId ids)" using c by simp
    have looked: "FindSharedCredentials c \<in> set (snd (userHasScopes env user scopes globalOnly ids))"
      using assms(1,2) t
      by (auto simp: userHasScopes_def v split: option.splits prod.splits)
    have found: "fst (userHasScopes env user scopes globalOnly ids) =
             Inr (case find (\<lambda>pr. pr_projectId pr = sc_projectId sc) prs of
                    None \<Rightarrow> False
                  | Some pr \<Rightarrow> pr_role pr \<in> set (rolesWithScope env ''project'' scopes))"
      if "findSharedCredentials env c = Some sc" "sc_projectId sc \<noteq> []" for sc
      using assms(1,2) t that
      by (simp add: userHasScopes_def v split: option.splits)
    have missing: "fst (userHasScopes env user scopes globalOnly ids) = Inr False"
      if "findSharedCredentials env c = None"
      using assms(1,2) t that
      by (simp add: userHasScopes_def v)
    from looked found missing show
      "FindSharedCredentials c \<in> set (snd (userHasScopes env user scopes globalOnly ids)) \<and>
        (\<forall>sc. findSharedCredentials env c = Some sc \<and> sc_projectId sc \<noteq> [] \<longrightarrow>
           fst (userHasScopes env user scopes globalOnly ids) =
             Inr (case find (\<lambda>pr. pr_projectId pr = sc_projectId sc) prs of
                    None \<Rightarrow> False
                  | Some pr \<Rightarrow> pr_role pr \<in> set (rolesWithScope env ''project'' scopes))) \<and>
        (findSharedCredentials env c = None \<longrightarrow>
           fst (userHasScopes env user scopes globalOnly ids) = Inr False)"
      by blast
  qed
qed

theorem derived_project_decides_witness:
  "FindSharedWorkflow ''workflow-id-1'' \<in> set (snd (userHasScopes testEnv adminOfP1
      [''workflow:create''] False (onlyWorkflow ''workflow-id-1''))) \<and>
   fst (userHasScopes testEnv adminOfP1 [''workflow:create''] False
      (onlyWorkflow ''workflow-id-1'')) = Inr True \<and>
   fst (userHasScopes testEnv adminOfP1 [''workflow:create''] False
      (onlyWorkflow ''workflow-id-2'')) = Inr False \<and>
   FindSharedCredentials ''credential-id-1'' \<in> set (snd (userHasScopes testEnv adminOfP1
      [''credential:delete''] False (onlyCredential ''credential-id-1''))) \<and>
   fst (userHasScopes testEnv adminOfP1 [''credential:delete''] False
      (onlyCredential ''credential-id-1'')) = Inr True \<and>
   fst (userHasScopes testEnv adminOfP1 [''credential:delete''] False
      (onlyCredential ''credential-id-2'')) = Inr False"
proof -
  have g: "\<not> hasGlobalScope testEnv adminOfP1 s allOf" for s
    by (simp add: testEnv_def noGlobal_def)
  have n: "\<not> False" by simp
  have r: "projectRoles adminOfP1
      = Some [\<lparr>pr_projectId = ''project-id-1'', pr_role = ''project:admin''\<rparr>]"
    by (simp add: adminOfP1_def)
  have ne: "[\<lparr>pr_projectId = ''project-id-1'', pr_role = ''project:admin''\<rparr>] \<noteq> []"
    by simp
  have pw: "\<not> truthy (projectId (onlyWorkflow x))" and pc: "\<not> truthy (projectId (onlyCredential x))"
    for x
    by (simp_all add: ids_defs)
  from derived_project_decides [OF g n r ne pw, where w = "''workflow-id-1''" and c = "[]"]
  have a: "FindSharedWorkflow ''workflow-id-1'' \<in> set (snd (userHasScopes testEnv adminOfP1
      [''workflow:create''] False (onlyWorkflow ''workflow-id-1''))) \<and>
   fst (userHasScopes testEnv adminOfP1 [''workflow:create''] False
      (onlyWorkflow ''workflow-id-1'')) = Inr True"
    by (simp add: fixture_defs ids_defs)
  from derived_project_decides [OF g n r ne pw, where w = "''workflow-id-2''" and c = "[]"]
  have b: "fst (userHasScopes testEnv adminOfP1 [''workflow:create''] False
      (onlyWorkflow ''workflow-id-2'')) = Inr False"
    by (simp add: fixture_defs ids_defs)
  from derived_project_decides [OF g n r ne pc, where c = "''credential-id-1''" and w = "[]"]
  have c: "FindSharedCredentials ''credential-id-1'' \<in> set (snd (userHasScopes testEnv adminOfP1
      [''credential:delete''] False (onlyCredential ''credential-id-1''))) \<and>
   fst (userHasScopes testEnv adminOfP1 [''credential:delete''] False
      (onlyCredential ''credential-id-1'')) = Inr True"
    by (simp add: fixture_defs ids_defs)
  from derived_project_decides [OF g n r ne pc, where c = "''credential-id-2''" and w = "[]"]
  have d: "fst (userHasScopes testEnv adminOfP1 [''credential:delete''] False
      (onlyCredential ''credential-id-2'')) = Inr False"
    by (simp add: fixture_defs ids_defs)
  from a b c d show ?thesis by blast
qed

section \<open>Precedence of the explicit project\<close>

text \<open>
  C6. When an explicit \<open>projectId\<close> is supplied, a \<open>workflowId\<close> supplied with it
  plays no part: whatever the workflow-sharing repository would answer, the outcome (and
  the calls made) are those of the same invocation without the \<open>workflowId\<close>, and the
  workflow-sharing repository is never read.
\<close>

theorem explicit_project_takes_precedence:
  assumes "truthy (projectId ids)"
  shows "userHasScopes (env\<lparr>findSharedWorkflow := rows\<rparr>) user scopes globalOnly ids
           = userHasScopes env user scopes globalOnly (ids\<lparr>workflowId := None\<rparr>)
       \<and> (\<forall>w. FindSharedWorkflow w \<notin>
             set (snd (userHasScopes (env\<lparr>findSharedWorkflow := rows\<rparr>) user scopes globalOnly ids)))"
proof -
  have w: "fromWorkflow env' (projectId ids) wid = (projectId ids, [])" for env' wid
    using assms by (rule fromWorkflow_known)
  have c: "fromCredential env' (projectId ids) cid = (projectId ids, [])" for env' cid
    using assms by (rule fromCredential_known)
  have g: "roleGrants (env\<lparr>findSharedWorkflow := rows\<rparr>) prs scopes cur = roleGrants env prs scopes cur"
    for prs cur
    by (cases cur) (simp_all split: option.splits)
  have nw: "FindSharedWorkflow x \<notin> set (snd (roleGrants env prs scopes cur))" for x prs cur
    by (cases cur) (simp_all split: option.splits)
  have v: "viaProjectRoles (env\<lparr>findSharedWorkflow := rows\<rparr>) user scopes ids
             = viaProjectRoles env user scopes (ids\<lparr>workflowId := None\<rparr>)"
    by (simp add: viaProjectRoles_def w c g split: option.splits)
  have vn: "FindSharedWorkflow x \<notin> set (snd (viaProjectRoles env user scopes (ids\<lparr>workflowId := None\<rparr>)))"
    for x
    by (simp add: viaProjectRoles_def c nw split: option.splits)
  obtain granted calls
    where r: "viaProjectRoles env user scopes (ids\<lparr>workflowId := None\<rparr>) = (granted, calls)"
    by (cases "viaProjectRoles env user scopes (ids\<lparr>workflowId := None\<rparr>)")
  have "FindSharedWorkflow x \<notin> set calls" for x
    using vn [of x] by (simp add: r)
  then show ?thesis
    by (simp add: userHasScopes_def v r assms)
qed

theorem explicit_project_takes_precedence_witness:
  "truthy (projectId projectAndWorkflow) \<and> truthy (workflowId projectAndWorkflow) \<and>
   userHasScopes (testEnv\<lparr>findSharedWorkflow := workflowRows\<rparr>) adminOfP1 [''project:read''] False
       projectAndWorkflow
     = userHasScopes testEnv adminOfP1 [''project:read''] False
         (projectAndWorkflow\<lparr>workflowId := None\<rparr>) \<and>
   FindSharedWorkflow ''workflow-id-1'' \<notin> set (snd (userHasScopes
       (testEnv\<lparr>findSharedWorkflow := workflowRows\<rparr>) adminOfP1 [''project:read''] False
       projectAndWorkflow)) \<and>
   fst (userHasScopes testEnv adminOfP1 [''project:read''] False
         (projectAndWorkflow\<lparr>workflowId := None\<rparr>)) = Inr False"
proof -
  have p: "truthy (projectId projectAndWorkflow)" and w: "truthy (workflowId projectAndWorkflow)"
    by (simp_all add: projectAndWorkflow_def)
  have d: "fst (userHasScopes testEnv adminOfP1 [''project:read''] False
         (projectAndWorkflow\<lparr>workflowId := None\<rparr>)) = Inr False"
    by (simp add: fixture_defs projectAndWorkflow_def userHasScopes_def viaProjectRoles_def)
  from explicit_project_takes_precedence [OF p, where env = testEnv and rows = workflowRows
      and user = adminOfP1 and scopes = "[''project:read'']" and globalOnly = False] p w d
  show ?thesis by blast
qed

section \<open>Dependence on the collaborators\<close>

text \<open>
  The outcome depends on the collaborators only through the answers to the questions the
  function can ask: the global check for this user and these scopes, the grant mapping for
  kind \<open>project\<close> and these scopes, and the sharing rows of the identifiers given.
\<close>

lemma fromWorkflow_cong:
  "(\<And>w. wid = Some w \<Longrightarrow> findSharedWorkflow env1 w = findSharedWorkflow env2 w) \<Longrightarrow>
     fromWorkflow env1 cur wid = fromWorkflow env2 cur wid"
  by (cases wid) simp_all

lemma fromCredential_cong:
  "(\<And>c. cid = Some c \<Longrightarrow> findSharedCredentials env1 c = findSharedCredentials env2 c) \<Longrightarrow>
     fromCredential env1 cur cid = fromCredential env2 cur cid"
  by (cases cid) simp_all

lemma roleGrants_cong:
  "rolesWithScope env1 ''project'' scopes = rolesWithScope env2 ''project'' scopes \<Longrightarrow>
     roleGrants env1 prs scopes cur = roleGrants env2 prs scopes cur"
  by (cases cur) (simp_all split: option.splits)

lemma viaProjectRoles_cong:
  assumes "rolesWithScope env1 ''project'' scopes = rolesWithScope env2 ''project'' scopes"
    and "\<And>w. workflowId ids = Some w \<Longrightarrow> findSharedWorkflow env1 w = findSharedWorkflow env2 w"
    and "\<And>c. credentialId ids = Some c \<Longrightarrow> findSharedCredentials env1 c = findSharedCredentials env2 c"
  shows "viaProjectRoles env1 user scopes ids = viaProjectRoles env2 user scopes ids"
proof -
  have w: "fromWorkflow env1 cur (workflowId ids) = fromWorkflow env2 cur (workflowId ids)" for cur
    using assms(2) by (rule fromWorkflow_cong)
  have c: "fromCredential env1 cur (credentialId ids) = fromCredential env2 cur (credentialId ids)" for cur
    using assms(3) by (rule fromCredential_cong)
  have g: "roleGrants env1 prs scopes cur = roleGrants env2 prs scopes cur" for prs cur
    using assms(1) by (rule roleGrants_cong)
  show ?thesis
    by (simp add: viaProjectRoles_def w c g split: option.splits)
qed

lemma userHasScopes_cong:
  assumes "hasGlobalScope env1 user scopes allOf = hasGlobalScope env2 user scopes allOf"
    and "rolesWithScope env1 ''project'' scopes = rolesWithScope env2 ''project'' scopes"
    and "\<And>w. workflowId ids = Some w \<Longrightarrow> findSharedWorkflow env1 w = findSharedWorkflow env2 w"
    and "\<And>c. credentialId ids = Some c \<Longrightarrow> findSharedCredentials env1 c = findSharedCredentials env2 c"
  shows "userHasScopes env1 user scopes globalOnly ids = userHasScopes env2 user scopes globalOnly ids"
  by (simp add: userHasScopes_def assms(1) viaProjectRoles_cong [OF assms(2-4)])

text \<open>
  C8. \<open>userHasScopes\<close> is a function of its inputs and of the collaborators' answers:
  for the same user, scopes, \<open>globalOnly\<close> flag and identifiers, two invocations whose
  collaborators give the same answers (global check, grant mapping, sharing rows of the
  identifiers given) end in the same decision, be it a grant, a denial or the error, and make
  the same calls. Nothing else is read.
\<close>

theorem same_answers_same_decision:
  assumes "hasGlobalScope env1 user scopes allOf = hasGlobalScope env2 user scopes allOf"
    and "rolesWithScope env1 ''project'' scopes = rolesWithScope env2 ''project'' scopes"
    and "\<forall>w. workflowId ids = Some w \<longrightarrow> findSharedWorkflow env1 w = findSharedWorkflow env2 w"
    and "\<forall>c. credentialId ids = Some c \<longrightarrow>
           findSharedCredentials env1 c = findSharedCredentials env2 c"
  shows "userHasScopes env1 user scopes globalOnly ids = userHasScopes env2 user scopes globalOnly ids"
  using assms by (intro userHasScopes_cong) simp_all

theorem same_answers_same_decision_witness:
  "userHasScopes testEnv adminOfP1 [''workflow:create''] False (onlyWorkflow ''workflow-id-1'')
     = userHasScopes (testEnv\<lparr>findSharedCredentials := noCredentialRows\<rparr>) adminOfP1
         [''workflow:create''] False (onlyWorkflow ''workflow-id-1'')"
  by (rule same_answers_same_decision) (simp_all add: ids_defs)

text \<open>The grant mapping is asked by the role evaluation only.\<close>

lemma roleGrants_calls:
  "RolesWithScope kind s \<in> set (snd (roleGrants env prs scopes cur)) \<Longrightarrow>
     kind = ''project'' \<and> s = scopes"
  by (cases cur) (simp_all split: option.splits if_splits)

lemma fromWorkflow_calls:
  "RolesWithScope kind s \<notin> set (snd (fromWorkflow env cur wid))"
  by (cases wid) (simp_all split: option.splits)

lemma fromCredential_calls:
  "RolesWithScope kind s \<notin> set (snd (fromCredential env cur cid))"
  by (cases cid) (simp_all split: option.splits)

lemma viaProjectRoles_calls:
  assumes "RolesWithScope kind s \<in> set (snd (viaProjectRoles env user scopes ids))"
  shows "kind = ''project'' \<and> s = scopes"
proof (cases "projectRoles user")
  case None
  with assms show ?thesis by (simp add: viaProjectRoles_def)
next
  case (Some prs)
  show ?thesis
  proof (cases "prs = []")
    case True
    with assms Some show ?thesis by (simp add: viaProjectRoles_def)
  next
    case False
    obtain cur1 calls1 where w: "fromWorkflow env (projectId ids) (workflowId ids) = (cur1, calls1)"
      by (cases "fromWorkflow env (projectId ids) (workflowId ids)")
    obtain cur2 calls2 where c: "fromCredential env cur1 (credentialId ids) = (cur2, calls2)"
      by (cases "fromCredential env cur1 (credentialId ids)")
    obtain granted calls3 where g: "roleGrants env prs scopes cur2 = (granted, calls3)"
      by (cases "roleGrants env prs scopes cur2")
    have "RolesWithScope kind s \<notin> set calls1"
      using fromWorkflow_calls [of kind s env "projectId ids" "workflowId ids"] by (simp add: w)
    moreover have "RolesWithScope kind s \<notin> set calls2"
      using fromCredential_calls [of kind s env cur1 "credentialId ids"] by (simp add: c)
    moreover have "RolesWithScope kind s \<in> set calls1 \<union> set calls2 \<union> set calls3"
      using assms Some False by (simp add: viaProjectRoles_def w c g)
    ultimately have "RolesWithScope kind s \<in> set calls3" by blast
    then show ?thesis
      using roleGrants_calls [of kind s env prs scopes cur2] by (simp add: g)
  qed
qed

text \<open>
  C10. Every call to the grant mapping is \<open>rolesWithScope('project', scopes)\<close>, whichever
  identifier was given; and two grant mappings that agree on kind \<open>project\<close> for the
  required scopes lead to the same decision.
\<close>

theorem grant_mapping_asked_for_project_only:
  "(\<forall>kind s. RolesWithScope kind s \<in> set (snd (userHasScopes env user scopes globalOnly ids))
       \<longrightarrow> kind = ''project'' \<and> s = scopes)
   \<and> (g1 ''project'' scopes = g2 ''project'' scopes \<longrightarrow>
        fst (userHasScopes (env\<lparr>rolesWithScope := g1\<rparr>) user scopes globalOnly ids)
          = fst (userHasScopes (env\<lparr>rolesWithScope := g2\<rparr>) user scopes globalOnly ids))"
proof -
  obtain granted calls where v: "viaProjectRoles env user scopes ids = (granted, calls)"
    by (cases "viaProjectRoles env user scopes ids")
  have only: "kind = ''project'' \<and> s = scopes"
    if a: "RolesWithScope kind s \<in> set (snd (userHasScopes env user scopes globalOnly ids))"
    for kind s
  proof -
    from a have "RolesWithScope kind s \<in> set calls"
      by (simp add: userHasScopes_def v split: if_splits)
    then show ?thesis
      using viaProjectRoles_calls [of kind s env user scopes ids] by (simp add: v)
  qed
  have same: "fst (userHasScopes (env\<lparr>rolesWithScope := g1\<rparr>) user scopes globalOnly ids)
      = fst (userHasScopes (env\<lparr>rolesWithScope := g2\<rparr>) user scopes globalOnly ids)"
    if h: "g1 ''project'' scopes = g2 ''project'' scopes"
  proof -
    have "userHasScopes (env\<lparr>rolesWithScope := g1\<rparr>) user scopes globalOnly ids
        = userHasScopes (env\<lparr>rolesWithScope := g2\<rparr>) user scopes globalOnly ids"
      by (rule userHasScopes_cong) (simp_all add: h)
    then show ?thesis by simp
  qed
  from only same show ?thesis by blast
qed

theorem grant_mapping_asked_for_project_only_witness:
  "adminOnly ''project'' [''workflow:create''] = adminAnyKind ''project'' [''workflow:create''] \<and>
   fst (userHasScopes (testEnv\<lparr>rolesWithScope := adminOnly\<rparr>) adminOfP1 [''workflow:create'']
          False (onlyWorkflow ''workflow-id-1''))
     = fst (userHasScopes (testEnv\<lparr>rolesWithScope := adminAnyKind\<rparr>) adminOfP1
          [''workflow:create''] False (onlyWorkflow ''workflow-id-1'')) \<and>
   RolesWithScope ''workflow'' [''workflow:create''] \<notin> set (snd (userHasScopes testEnv adminOfP1
     [''workflow:create''] False (onlyWorkflow ''workflow-id-1'')))"
proof -
  have agree: "adminOnly ''project'' [''workflow:create'']
      = adminAnyKind ''project'' [''workflow:create'']"
    by (simp add: adminOnly_def adminAnyKind_def)
  have other: "''workflow'' \<noteq> ''project''" by simp
  from grant_mapping_asked_for_project_only [of testEnv adminOfP1 "[''workflow:create'']" False
      "onlyWorkflow ''workflow-id-1''" adminOnly adminAnyKind] agree other
  show ?thesis by blast
qed

end
